theory Spec2Isabelle
  imports Main
begin

section \<open>The resource handler of \<open>src/lib/redux/src/handler.js\<close>\<close>

text \<open>
  The handler binds one REST collection to a Redux substate: four thunk action creators
  (archive query, single fetch, update, create), a reducer, and six query helpers.
  The embedding follows the JavaScript source function by function. JavaScript is
  dynamically typed, so every place where the source can throw (a method called on a value
  that does not have it, an explicit \<open>throw\<close>) is a branch returning \<open>Inl\<close>.
\<close>

subsection \<open>Values\<close>

text \<open>
  Scalars are the values ids, archive keys and loading flags take. \<open>JNum n\<close> is the
  number with the integer value \<open>n\<close>. \<open>===\<close> on scalars is equality of the values: ids
  come from parsed JSON, which has no NaN, the one number that differs from itself.
  Objects and arrays are not scalars: \<open>===\<close> compares them by reference, which a value
  model cannot express, so ids are scalars by type.
\<close>

datatype scalar = JUndefined | JNull | JBool bool | JNum int | JStr string

text \<open>
  JavaScript numbers hold the integers up to \<open>2 ^ 53\<close> in magnitude exactly, and print
  them digit by digit. \<open>exact_number\<close> says that a scalar, if it is a number, is in that
  range; a statement that turns an arbitrary scalar into a string assumes it.
\<close>

definition exact_number :: "scalar \<Rightarrow> bool" where
  "exact_number v = (case v of JNum n \<Rightarrow> \<bar>n\<bar> \<le> 2 ^ 53 | _ \<Rightarrow> True)"

text \<open>The conversion to boolean that \<open>!x\<close>, \<open>x || y\<close> and \<open>if (x)\<close> apply.\<close>

fun truthy :: "scalar \<Rightarrow> bool" where
  "truthy JUndefined = False"
| "truthy JNull = False"
| "truthy (JBool b) = b"
| "truthy (JNum n) = (n \<noteq> 0)"
| "truthy (JStr s) = (s \<noteq> [])"

text \<open>
  An entity is a plain object, given by its own properties; the handler reads none but
  \<open>id\<close>, so the values of the others are kept as scalars. Reading a property the object
  does not have yields \<open>undefined\<close>; \<open>entity_id post\<close> is the source's \<open>post.id\<close>.
\<close>

type_synonym entity = "(string \<times> scalar) list"

definition entity_id :: "entity \<Rightarrow> scalar" where
  "entity_id post = (case map_of post ''id'' of None \<Rightarrow> JUndefined | Some v \<Rightarrow> v)"

text \<open>What a helper returns: \<open>null\<close>, \<open>undefined\<close>, or a proper value.\<close>

datatype 'a js_result = JsNull | JsUndefined | Value 'a

text \<open>
  The exceptions of the source: the TypeError the engine raises for a call of a missing
  method or a property read on \<open>undefined\<close>, the two errors the thunks throw themselves
  (lines 101 and 214), and a failed request (line 26, or a rejection of the transport).
\<close>

datatype error = TypeError | InvalidArchiveID string | MissingId | RequestError string

subsection \<open>Number to string\<close>

text \<open>
  String concatenation and property keys turn a number of the exact range into its decimal
  digits (\<open>'_tmp_' + this.tempId++\<close>, \<open>this.archives[ id ]\<close>). Beyond that range
  JavaScript prints rounded digits or an exponent, which \<open>toString\<close> below does not follow.
\<close>

definition digit_char :: "nat \<Rightarrow> char" where
  "digit_char d = ''0123456789'' ! d"

function string_of_nat :: "nat \<Rightarrow> string" where
  "string_of_nat n =
     (if n < 10 then [digit_char n] else string_of_nat (n div 10) @ [digit_char (n mod 10)])"
  by pat_completeness auto
termination
  by (relation "measure (\<lambda>n. n)") auto

definition toString :: "scalar \<Rightarrow> string" where
  "toString v =
     (case v of
        JUndefined \<Rightarrow> ''undefined''
      | JNull \<Rightarrow> ''null''
      | JBool b \<Rightarrow> (if b then ''true'' else ''false'')
      | JNum n \<Rightarrow> (if n < 0 then ''-'' @ string_of_nat (nat (- n)) else string_of_nat (nat n))
      | JStr s \<Rightarrow> s)"

subsection \<open>Array and string methods\<close>

text \<open>\<open>Array.prototype.indexOf\<close>: the first index holding the element, or \<open>-1\<close>.\<close>

fun indexOf :: "'a list \<Rightarrow> 'a \<Rightarrow> int" where
  "indexOf [] x = - 1"
| "indexOf (y # ys) x =
     (if y = x then 0 else (let i = indexOf ys x in if i = - 1 then - 1 else i + 1))"

text \<open>\<open>String.prototype.indexOf\<close>: the first position where the substring starts, or \<open>-1\<close>.\<close>

fun String_indexOf :: "string \<Rightarrow> string \<Rightarrow> int" where
  "String_indexOf [] sub = (if sub = [] then 0 else - 1)"
| "String_indexOf (c # cs) sub =
     (if take (length sub) (c # cs) = sub then 0
      else (let i = String_indexOf cs sub in if i = - 1 then - 1 else i + 1))"

subsection \<open>Action types\<close>

datatype action_key =
    archiveStart | archiveSuccess | archiveError
  | getStart | getSuccess | getError
  | updateStart | updateSuccess | updateError
  | createStart | createSuccess | createError

text \<open>
  Line 42 uppercases the resource-type name with \<open>String.prototype.toUpperCase\<close>, a
  function of the language. The constructor and the action types below take it as the
  parameter \<open>upper\<close>, so what is proved of them holds for that function whatever it does
  to letters outside ASCII. \<open>toUpperCase_ascii\<close> is that function on ASCII strings, where
  the letters \<open>a\<close> to \<open>z\<close> become \<open>A\<close> to \<open>Z\<close> and every other character stays; it
  is given for \<open>upper\<close> only where the name is an ASCII literal.
\<close>

definition toUpperCase_char :: "char \<Rightarrow> char" where
  "toUpperCase_char c =
     (case map_of (zip ''abcdefghijklmnopqrstuvwxyz'' ''ABCDEFGHIJKLMNOPQRSTUVWXYZ'') c of
        None \<Rightarrow> c
      | Some u \<Rightarrow> u)"

definition toUpperCase_ascii :: "string \<Rightarrow> string" where
  "toUpperCase_ascii s = map toUpperCase_char s"

text \<open>Lines 43 to 55: the twelve template strings over \<open>upperType\<close>.\<close>

fun derived_actions :: "string \<Rightarrow> action_key \<Rightarrow> string" where
  "derived_actions upperType archiveStart = ''QUERY_'' @ upperType @ ''_REQUEST''"
| "derived_actions upperType archiveSuccess = ''QUERY_'' @ upperType"
| "derived_actions upperType archiveError = ''QUERY_'' @ upperType @ ''_ERROR''"
| "derived_actions upperType getStart = ''LOAD_'' @ upperType @ ''_REQUEST''"
| "derived_actions upperType getSuccess = ''LOAD_'' @ upperType"
| "derived_actions upperType getError = ''LOAD_'' @ upperType @ ''_ERROR''"
| "derived_actions upperType updateStart = ''UPDATE_'' @ upperType @ ''_REQUEST''"
| "derived_actions upperType updateSuccess = ''UPDATE_'' @ upperType"
| "derived_actions upperType updateError = ''UPDATE_'' @ upperType @ ''_ERROR''"
| "derived_actions upperType createStart = ''CREATE_'' @ upperType @ ''_REQUEST''"
| "derived_actions upperType createSuccess = ''CREATE_'' @ upperType"
| "derived_actions upperType createError = ''CREATE_'' @ upperType @ ''_ERROR''"

text \<open>
  The action types of a handler constructed for \<open>options.type\<close> with no overrides,
  and with the overrides of \<open>options.actions\<close> spread over them (line 58).
\<close>

definition action_types :: "(string \<Rightarrow> string) \<Rightarrow> string \<Rightarrow> action_key \<Rightarrow> string" where
  "action_types upper type_name = derived_actions (upper type_name)"

definition action_types_with ::
  "(string \<Rightarrow> string) \<Rightarrow> string \<Rightarrow> (action_key \<rightharpoonup> string) \<Rightarrow> action_key \<Rightarrow> string" where
  "action_types_with upper type_name overrides k =
     (case overrides k of None \<Rightarrow> action_types upper type_name k | Some t \<Rightarrow> t)"

subsection \<open>The handler instance\<close>

text \<open>
  The prototype of an object: none, \<open>Object.prototype\<close>, or a value that an assignment
  made the prototype.
\<close>

datatype 'q prototype = NullPrototype | ObjectPrototype | ValuePrototype 'q

text \<open>
  The fields of a handler that its methods read after construction. \<open>url\<close>, \<open>query\<close> and
  \<open>fetchOptions\<close> only shape the request, which is represented below by its outcome, and
  are left out. \<open>archives\<close> holds the own properties of the object \<open>this.archives\<close> and
  \<open>archives_prototype\<close> its prototype: the object literal of line 38 has
  \<open>Object.prototype\<close>, and an assignment under the key \<open>__proto__\<close> (line 72) can replace
  it. \<open>'q\<close> is the type of the registered queries, \<open>query\<close> below. \<open>tempId\<close> is a
  JavaScript number that holds a natural number: line 61 sets it to \<open>0\<close> and line 261,
  its only other write, adds one per call of \<open>createSingle\<close>. No run makes the
  \<open>2 ^ 53\<close> calls that would take it out of the range where such a number counts
  exactly, so the model counts in \<open>nat\<close>.
\<close>

record 'q handler =
  archives :: "string \<rightharpoonup> 'q"
  archives_prototype :: "'q prototype"
  rethrow :: bool
  actions :: "action_key \<Rightarrow> string"
  tempId :: nat

text \<open>
  The constructor (lines 31 to 62), for \<open>options.type\<close>, \<open>options.rethrow\<close> (\<open>None\<close> when
  \<open>'rethrow' in options\<close> is false) and \<open>options.actions\<close>.
\<close>

definition Handler ::
  "(string \<Rightarrow> string) \<Rightarrow> string \<Rightarrow> bool option \<Rightarrow> (action_key \<rightharpoonup> string) \<Rightarrow> 'q handler" where
  "Handler upper type_name rethrow_option overrides =
     \<lparr> archives = Map.empty,
       archives_prototype = ObjectPrototype,
       rethrow = (case rethrow_option of None \<Rightarrow> True | Some r \<Rightarrow> r),
       actions = action_types_with upper type_name overrides,
       tempId = 0 \<rparr>"

text \<open>The property key of a computed member access: the scalar as a string.\<close>

definition toPropertyKey :: "scalar \<Rightarrow> string" where
  "toPropertyKey v = toString v"

text \<open>
  The names every plain object inherits from \<open>Object.prototype\<close>: a member read or an
  \<open>in\<close> test on an object used as a dictionary finds them although they were never stored.
\<close>

definition Object_prototype_keys :: "string list" where
  "Object_prototype_keys =
     [''constructor'', ''hasOwnProperty'', ''isPrototypeOf'', ''propertyIsEnumerable'',
      ''toLocaleString'', ''toString'', ''valueOf'', ''__proto__'',
      ''__defineGetter__'', ''__defineSetter__'', ''__lookupGetter__'', ''__lookupSetter__'']"

subsection \<open>The substate\<close>

text \<open>
  \<open>posts\<close> is read with array methods, but \<open>DEFAULT_STATE\<close> (line 12) initialises it
  to the object literal \<open>{}\<close>. The shapes the field takes: absent (a preloaded state
  without it), that empty object, an array of entities, and \<open>PostsArrayNoObject\<close>, the
  one-element array \<open>[ action.data ]\<close> that a success action without \<open>data\<close> leaves
  when it meets an empty \<open>posts\<close>: its element is \<open>undefined\<close> or \<open>null\<close>, so every
  callback that reads \<open>post.id\<close> on it throws.
\<close>

datatype posts_value = PostsUndefined | PostsObject | PostsArray "entity list" | PostsArrayNoObject

text \<open>
  The record lists every property of the substate that the handler reads or writes;
  an absent property reads as \<open>undefined\<close> (\<open>None\<close> for \<open>archives\<close>).
  \<open>loadingSingle\<close> is read by \<open>isPostLoading\<close> (line 187) and written nowhere.
\<close>

record substate =
  archives :: "(string \<rightharpoonup> scalar list) option"
  loadingPost :: scalar
  loadingArchive :: scalar
  posts :: posts_value
  saving :: scalar
  loadingSingle :: scalar

definition DEFAULT_STATE :: substate where
  "DEFAULT_STATE =
     \<lparr> archives = Some Map.empty,
       loadingPost = JBool False,
       loadingArchive = JBool False,
       posts = PostsObject,
       saving = JBool False,
       loadingSingle = JUndefined \<rparr>"

subsection \<open>Actions and the reducer\<close>

text \<open>
  An action object \<open>{ type, id, data, results, error }\<close>. A missing \<open>id\<close> reads as
  \<open>undefined\<close>; \<open>data\<close> is an entity, or \<open>None\<close> when it is missing or \<open>null\<close>;
  \<open>results\<close> is an array of entities, or \<open>None\<close> when it is missing or not an array;
  \<open>error\<close> is \<open>None\<close> when it is missing. The callback of \<open>filter\<close> reads
  \<open>action.data.id\<close> only when it is called, so a success action without \<open>data\<close> throws
  only when \<open>posts\<close> has an element.
\<close>

record action =
  type :: string
  id' :: scalar
  data :: "entity option"
  results :: "entity list option"
  error :: "error option"

text \<open>
  \<open>( posts || [] ).filter( post => ... post.id ... )\<close>, up to the list the callback
  runs over: the empty array for an absent \<open>posts\<close>; a TypeError for the object \<open>{}\<close>,
  which is truthy and has no \<open>filter\<close>, and for the array whose element is not an object.
\<close>

fun posts_or_empty :: "posts_value \<Rightarrow> error + entity list" where
  "posts_or_empty PostsUndefined = Inr []"
| "posts_or_empty PostsObject = Inl TypeError"
| "posts_or_empty (PostsArray ps) = Inr ps"
| "posts_or_empty PostsArrayNoObject = Inl TypeError"

text \<open>\<open>{ ...state.archives, [ key ]: ids }\<close>; spreading \<open>undefined\<close> adds nothing.\<close>

definition spread_archives ::
  "(string \<rightharpoonup> scalar list) option \<Rightarrow> string \<Rightarrow> scalar list \<Rightarrow> (string \<rightharpoonup> scalar list)" where
  "spread_archives as key ids = (case as of None \<Rightarrow> Map.empty | Some m \<Rightarrow> m)(key \<mapsto> ids)"

text \<open>
  The reducer (lines 307 to 400), a method of the handler \<open>h\<close>: the \<open>switch\<close> takes the
  first case whose string \<open>this.actions.k\<close> equals \<open>action.type\<close>. The state \<open>None\<close> is the
  \<open>undefined\<close> that the default parameter replaces by \<open>DEFAULT_STATE\<close>.
\<close>

definition reducer :: "'q handler \<Rightarrow> substate option \<Rightarrow> action \<Rightarrow> error + substate" where
  "reducer h state0 action =
     (let state = (case state0 of None \<Rightarrow> DEFAULT_STATE | Some s \<Rightarrow> s) in
      if type action = actions h archiveStart then
        Inr (state\<lparr> loadingArchive := id' action \<rparr>)
      else if type action = actions h archiveSuccess then
        (case results action of
           None \<Rightarrow> Inl TypeError
         | Some rs \<Rightarrow>
             (let ids = map entity_id rs in
              case posts_or_empty (posts state) of
                Inl e \<Rightarrow> Inl e
              | Inr ps \<Rightarrow>
                  (let deduplicated = filter (\<lambda>post. indexOf ids (entity_id post) = - 1) ps in
                   Inr (state\<lparr> loadingArchive := JBool False,
                               archives := Some (spread_archives (archives state)
                                                   (toPropertyKey (id' action)) ids),
                               posts := PostsArray (deduplicated @ rs) \<rparr>))))
      else if type action = actions h archiveError then
        Inr (state\<lparr> loadingArchive := JBool False \<rparr>)
      else if type action = actions h getStart then
        Inr (state\<lparr> loadingPost := id' action \<rparr>)
      else if type action = actions h getSuccess then
        (case posts_or_empty (posts state) of
           Inl e \<Rightarrow> Inl e
         | Inr ps \<Rightarrow>
             (case data action of
                None \<Rightarrow>
                  (if ps = [] then Inr (state\<lparr> loadingPost := JBool False,
                                              posts := PostsArrayNoObject \<rparr>)
                   else Inl TypeError)
              | Some d \<Rightarrow>
                  (let existing = filter (\<lambda>post. entity_id post \<noteq> entity_id d) ps in
                   Inr (state\<lparr> loadingPost := JBool False,
                               posts := PostsArray (existing @ [d]) \<rparr>))))
      else if type action = actions h getError then
        Inr (state\<lparr> loadingPost := JBool False \<rparr>)
      else if type action = actions h createStart \<or> type action = actions h updateStart then
        Inr (state\<lparr> saving := id' action \<rparr>)
      else if type action = actions h createSuccess \<or> type action = actions h updateSuccess then
        (case posts_or_empty (posts state) of
           Inl e \<Rightarrow> Inl e
         | Inr ps \<Rightarrow>
             (case data action of
                None \<Rightarrow>
                  (if ps = [] then Inr (state\<lparr> saving := JBool False,
                                              posts := PostsArrayNoObject \<rparr>)
                   else Inl TypeError)
              | Some d \<Rightarrow>
                  (let existing = filter (\<lambda>post. entity_id post \<noteq> entity_id d) ps in
                   Inr (state\<lparr> saving := JBool False,
                               posts := PostsArray (existing @ [d]) \<rparr>))))
      else if type action = actions h createError \<or> type action = actions h updateError then
        Inr (state\<lparr> saving := JBool False \<rparr>)
      else Inr state)"

subsection \<open>The query helpers\<close>

definition isArchiveLoading :: "substate \<Rightarrow> scalar \<Rightarrow> bool" where
  "isArchiveLoading substate i = (loadingArchive substate = i)"

text \<open>
  \<open>getArchive\<close> (lines 142 to 151). For a key that is not stored but inherited, \<open>ids\<close> is
  a function or object without \<open>indexOf\<close>, so the callback throws as soon as it is called.
\<close>

definition getArchive :: "substate \<Rightarrow> scalar \<Rightarrow> error + entity list js_result" where
  "getArchive substate i =
     (case archives substate of
        None \<Rightarrow> Inr JsNull
      | Some as \<Rightarrow>
          if posts substate = PostsUndefined then Inr JsNull
          else
            (case as (toPropertyKey i) of
               Some ids \<Rightarrow>
                 (case posts_or_empty (posts substate) of
                    Inl e \<Rightarrow> Inl e
                  | Inr ps \<Rightarrow> Inr (Value (filter (\<lambda>app. indexOf ids (entity_id app) \<ge> 0) ps)))
             | None \<Rightarrow>
                 if toPropertyKey i \<in> set Object_prototype_keys then
                   (case posts_or_empty (posts substate) of
                      Inl e \<Rightarrow> Inl e
                    | Inr ps \<Rightarrow> if ps = [] then Inr (Value []) else Inl TypeError)
                 else Inr JsNull))"

text \<open>\<open>isPostLoading\<close> (line 187) compares the id with \<open>substate.loadingSingle\<close>.\<close>

definition isPostLoading :: "substate \<Rightarrow> scalar \<Rightarrow> bool" where
  "isPostLoading substate i = (loadingSingle substate = i)"

text \<open>
  \<open>getSingle\<close> (lines 197 to 203): \<open>null\<close> for a falsy \<open>posts\<close>, else
  \<open>posts.find( ... )\<close>, which is \<open>undefined\<close> when no element matches.
\<close>

definition getSingle :: "substate \<Rightarrow> scalar \<Rightarrow> error + entity js_result" where
  "getSingle substate i =
     (case posts substate of
        PostsUndefined \<Rightarrow> Inr JsNull
      | PostsObject \<Rightarrow> Inl TypeError
      | PostsArrayNoObject \<Rightarrow> Inl TypeError
      | PostsArray ps \<Rightarrow>
          Inr (case find (\<lambda>post. entity_id post = i) ps of
                 None \<Rightarrow> JsUndefined
               | Some post \<Rightarrow> Value post))"

definition isPostSaving :: "substate \<Rightarrow> scalar \<Rightarrow> bool" where
  "isPostSaving substate i = (saving substate = i)"

text \<open>
  \<open>isPostCreating\<close> (line 295) calls \<open>substate.saving.indexOf\<close>: only a string has that
  method among the scalars.
\<close>

definition isPostCreating :: "substate \<Rightarrow> error + bool" where
  "isPostCreating substate =
     (case saving substate of
        JStr s \<Rightarrow> Inr (String_indexOf s ''_tmp_'' = 0)
      | _ \<Rightarrow> Inl TypeError)"

subsection \<open>The store\<close>

text \<open>
  The thunks receive \<open>dispatch\<close> from the store. The store is represented by the substate
  the handler's reducer is mounted on, and by the list of the actions passed to
  \<open>dispatch\<close> so far. As in Redux, \<open>dispatch\<close> runs the reducer on the current state at
  once; when the reducer throws, the state stays as it was and the exception reaches the
  caller of \<open>dispatch\<close> (\<open>Some e\<close>).
\<close>

record store =
  state :: substate
  dispatched :: "action list"

definition dispatch :: "'q handler \<Rightarrow> action \<Rightarrow> store \<Rightarrow> error option \<times> store" where
  "dispatch h a st =
     (case reducer h (Some (state st)) a of
        Inl e \<Rightarrow> (Some e, st\<lparr> dispatched := dispatched st @ [a] \<rparr>)
      | Inr s \<Rightarrow> (None, \<lparr> state = s, dispatched = dispatched st @ [a] \<rparr>))"

text \<open>How a promise settles: resolved with a value, or rejected with an error.\<close>

datatype settled = Resolved scalar | Rejected error

text \<open>
  A promise chain \<open>this.fetch( ... ).then( ... ).catch( ... )\<close> is the function that, given
  how the request settles (\<open>Inr\<close> the parsed body of an ok response, \<open>Inl\<close> the error of
  \<open>parseResponse\<close> or of the transport) and the store at that moment, gives how the chain
  settles and the store afterwards. What a thunk returns is \<open>undefined\<close> or such a chain.
\<close>

type_synonym 'p chain = "error + 'p \<Rightarrow> store \<Rightarrow> settled \<times> store"

datatype 'p thunk_value = ReturnsUndefined | ReturnsPromise "'p chain"

text \<open>
  The \<open>catch\<close> callback the four thunks share (lines 113 to 121, 168 to 176, 231 to 239,
  277 to 285): log the error (no effect on the store), dispatch the error action, then
  rethrow if the handler says so. The chain resolves with \<open>undefined\<close> when the callback
  falls off its end.
\<close>

definition on_rejected :: "'q handler \<Rightarrow> action_key \<Rightarrow> scalar \<Rightarrow> error \<Rightarrow> store \<Rightarrow> settled \<times> store" where
  "on_rejected h error_key i e st =
     (case dispatch h \<lparr> type = actions h error_key, id' = i, data = None, results = None,
                         error = Some e \<rparr> st of
        (Some e', st') \<Rightarrow> (Rejected e', st')
      | (None, st') \<Rightarrow> (if rethrow h then Rejected e else Resolved JUndefined, st'))"

subsection \<open>Registered queries and the archives object\<close>

text \<open>
  A registered query is a parameter object or a function that receives the state and
  returns the parameters (line 107); any other value can be registered as well. The
  request is represented by its outcome, so of a function this is kept: whether its call
  on a state throws (\<open>Some e\<close>) or returns, and, for the case that the function is made the
  prototype of \<open>this.archives\<close>, its members: for a name, the value that a read finds
  on the function or on \<open>Function.prototype\<close>, and whether an assignment under that name
  is allowed (a writable data property) or throws (a read-only property, a setter that
  throws). A member whose read throws is given as a function whose call throws: the thunk
  ends with the same error at the same point.
\<close>

datatype query =
    QueryObject entity
  | QueryScalar scalar
  | QueryFunction "string \<Rightarrow> (query \<times> bool) option" "substate \<Rightarrow> error option"

definition evaluate_query :: "query \<Rightarrow> substate \<Rightarrow> error option" where
  "evaluate_query q s =
     (case q of
        QueryObject params \<Rightarrow> None
      | QueryScalar v \<Rightarrow> None
      | QueryFunction members call \<Rightarrow> call s)"

text \<open>
  The members of \<open>Object.prototype\<close> other than \<open>__proto__\<close>, read as a query.
  \<open>constructor\<close> is the function \<open>Object\<close>, which returns its argument; \<open>toString\<close>
  called without a receiver returns a string. The other members are functions that convert
  their receiver to an object first: called as \<open>query( getState() )\<close> they have none and
  throw a TypeError. All of them are writable data properties.
\<close>

definition Object_prototype_member :: "string \<Rightarrow> query" where
  "Object_prototype_member key =
     (if key = ''constructor'' \<or> key = ''toString''
      then QueryFunction (\<lambda>k. None) (\<lambda>s. None)
      else QueryFunction (\<lambda>k. None) (\<lambda>s. Some TypeError))"

text \<open>
  What the prototype itself (with \<open>Function.prototype\<close>, for a function) holds under a
  name: the properties of a parameter object are writable data properties with scalar
  values. A scalar is never a prototype.
\<close>

fun prototype_member :: "query prototype \<Rightarrow> string \<Rightarrow> (query \<times> bool) option" where
  "prototype_member NullPrototype key = None"
| "prototype_member ObjectPrototype key = None"
| "prototype_member (ValuePrototype (QueryObject params)) key =
     (case map_of params key of None \<Rightarrow> None | Some v \<Rightarrow> Some (QueryScalar v, True))"
| "prototype_member (ValuePrototype (QueryScalar v)) key = None"
| "prototype_member (ValuePrototype (QueryFunction members call)) key = members key"

text \<open>
  What the accessor \<open>__proto__\<close> of \<open>Object.prototype\<close> reads on \<open>this.archives\<close>: its
  prototype. \<open>Object.prototype\<close> itself is an object that is not a function and that a
  spread takes nothing from.
\<close>

fun prototype_value :: "query prototype \<Rightarrow> query" where
  "prototype_value NullPrototype = QueryScalar JNull"
| "prototype_value ObjectPrototype = QueryObject []"
| "prototype_value (ValuePrototype q) = q"

text \<open>
  What a read of \<open>this.archives[ key ]\<close> finds past the own properties, along the
  prototype chain, and whether an assignment under the name may define an own property.
  Every chain but the empty one ends in \<open>Object.prototype\<close>.
\<close>

definition chain_member :: "query prototype \<Rightarrow> string \<Rightarrow> (query \<times> bool) option" where
  "chain_member p key =
     (case prototype_member p key of
        Some m \<Rightarrow> Some m
      | None \<Rightarrow>
          (case p of
             NullPrototype \<Rightarrow> None
           | _ \<Rightarrow>
               if key = ''__proto__'' then Some (prototype_value p, True)
               else if key \<in> set Object_prototype_keys
               then Some (Object_prototype_member key, True)
               else None))"

text \<open>\<open>key in this.archives\<close> (line 100) and \<open>this.archives[ key ]\<close> (line 106).\<close>

definition in_archives :: "query handler \<Rightarrow> string \<Rightarrow> bool" where
  "in_archives h key =
     (case handler.archives h key of
        Some q \<Rightarrow> True
      | None \<Rightarrow> (case chain_member (archives_prototype h) key of Some m \<Rightarrow> True | None \<Rightarrow> False))"

definition read_archives :: "query handler \<Rightarrow> string \<Rightarrow> query" where
  "read_archives h key =
     (case handler.archives h key of
        Some q \<Rightarrow> q
      | None \<Rightarrow>
          (case chain_member (archives_prototype h) key of
             Some m \<Rightarrow> fst m
           | None \<Rightarrow> QueryScalar JUndefined))"

text \<open>
  The setter of the accessor \<open>__proto__\<close> is reached by an assignment when the object has
  no own property of that name and nothing before \<open>Object.prototype\<close> in the chain has one.
\<close>

definition proto_setter_reached :: "query handler \<Rightarrow> bool" where
  "proto_setter_reached h =
     (case handler.archives h ''__proto__'' of
        Some q \<Rightarrow> False
      | None \<Rightarrow>
          (case archives_prototype h of
             NullPrototype \<Rightarrow> False
           | p \<Rightarrow> (case prototype_member p ''__proto__'' of Some m \<Rightarrow> False | None \<Rightarrow> True)))"

text \<open>
  \<open>registerArchive\<close> (line 72): the assignment \<open>this.archives[ id ] = query\<close>, in the
  strict mode of a class body. Under the key \<open>__proto__\<close>, when the setter is reached, an
  object or function becomes the prototype, \<open>null\<close> removes it, and any other value
  changes nothing; no own property is stored. Under any other name the query becomes an
  own property, unless the chain holds a property of that name that is not writable: then
  the assignment throws a TypeError.
\<close>

definition registerArchive :: "query handler \<Rightarrow> scalar \<Rightarrow> query \<Rightarrow> error + query handler" where
  "registerArchive h i query =
     (let key = toPropertyKey i in
      if key = ''__proto__'' \<and> proto_setter_reached h then
        (case query of
           QueryScalar v \<Rightarrow>
             Inr (if v = JNull then h\<lparr> archives_prototype := NullPrototype \<rparr> else h)
         | _ \<Rightarrow> Inr (h\<lparr> archives_prototype := ValuePrototype query \<rparr>))
      else
        (case handler.archives h key of
           Some q \<Rightarrow> Inr (h\<lparr> handler.archives := (handler.archives h)(key \<mapsto> query) \<rparr>)
         | None \<Rightarrow>
             (case chain_member (archives_prototype h) key of
                Some (v, False) \<Rightarrow> Inl TypeError
              | _ \<Rightarrow> Inr (h\<lparr> handler.archives := (handler.archives h)(key \<mapsto> query) \<rparr>))))"

subsection \<open>The thunks\<close>

text \<open>
  \<open>fetchArchive\<close> (lines 99 to 122). After the guard and the dispatch of \<open>archiveStart\<close>
  the query is evaluated on the state of that moment; a query function that throws ends the
  thunk there. The chain of lines 108 to 121 is then built and left attached to the
  request: the arrow function has a block body with no \<open>return\<close>.
  A \<open>then\<close> callback that throws (its \<open>dispatch\<close> does) hands the error to \<open>catch\<close>.
\<close>

definition fetchArchive_chain :: "'q handler \<Rightarrow> scalar \<Rightarrow> entity list chain" where
  "fetchArchive_chain h i response st =
     (case response of
        Inr rs \<Rightarrow>
          (case dispatch h \<lparr> type = actions h archiveSuccess, id' = i, data = None,
                              results = Some rs, error = None \<rparr> st of
             (None, st') \<Rightarrow> (Resolved i, st')
           | (Some e, st') \<Rightarrow> on_rejected h archiveError i e st')
      | Inl e \<Rightarrow> on_rejected h archiveError i e st)"

definition fetchArchive ::
  "query handler \<Rightarrow> scalar \<Rightarrow> store \<Rightarrow> (error + entity list thunk_value) \<times> store" where
  "fetchArchive h i st =
     (if \<not> in_archives h (toPropertyKey i) then
        (Inl (InvalidArchiveID (toString i)), st)
      else
        (case dispatch h \<lparr> type = actions h archiveStart, id' = i, data = None,
                            results = None, error = None \<rparr> st of
           (Some e, st') \<Rightarrow> (Inl e, st')
         | (None, st') \<Rightarrow>
             (let query = read_archives h (toPropertyKey i) in
              case evaluate_query query (state st') of
                Some e \<Rightarrow> (Inl e, st')
              | None \<Rightarrow> (Inr ReturnsUndefined, st'))))"

text \<open>\<open>fetchSingle\<close> (lines 160 to 177); \<open>context\<close> only shapes the request.\<close>

definition fetchSingle_chain :: "'q handler \<Rightarrow> scalar \<Rightarrow> entity chain" where
  "fetchSingle_chain h i response st =
     (case response of
        Inr d \<Rightarrow>
          (case dispatch h \<lparr> type = actions h getSuccess, id' = i, data = Some d,
                              results = None, error = None \<rparr> st of
             (None, st') \<Rightarrow> (Resolved i, st')
           | (Some e, st') \<Rightarrow> on_rejected h getError i e st')
      | Inl e \<Rightarrow> on_rejected h getError i e st)"

definition fetchSingle :: "'q handler \<Rightarrow> scalar \<Rightarrow> store \<Rightarrow> (error + entity thunk_value) \<times> store" where
  "fetchSingle h i st =
     (case dispatch h \<lparr> type = actions h getStart, id' = i, data = None,
                         results = None, error = None \<rparr> st of
        (Some e, st') \<Rightarrow> (Inl e, st')
      | (None, st') \<Rightarrow> (Inr (ReturnsPromise (fetchSingle_chain h i)), st'))"

text \<open>\<open>updateSingle\<close> (lines 211 to 240): \<open>if ( ! id )\<close> throws before the first dispatch.\<close>

definition updateSingle_chain :: "'q handler \<Rightarrow> scalar \<Rightarrow> entity chain" where
  "updateSingle_chain h i response st =
     (case response of
        Inr d \<Rightarrow>
          (case dispatch h \<lparr> type = actions h updateSuccess, id' = i, data = Some d,
                              results = None, error = None \<rparr> st of
             (None, st') \<Rightarrow> (Resolved i, st')
           | (Some e, st') \<Rightarrow> on_rejected h updateError i e st')
      | Inl e \<Rightarrow> on_rejected h updateError i e st)"

definition updateSingle :: "'q handler \<Rightarrow> entity \<Rightarrow> store \<Rightarrow> (error + entity thunk_value) \<times> store" where
  "updateSingle h d st =
     (let i = entity_id d in
      if \<not> truthy i then (Inl MissingId, st)
      else
        (case dispatch h \<lparr> type = actions h updateStart, id' = i, data = Some d,
                            results = None, error = None \<rparr> st of
           (Some e, st') \<Rightarrow> (Inl e, st')
         | (None, st') \<Rightarrow> (Inr (ReturnsPromise (updateSingle_chain h i)), st')))"



subsection \<open>Predicates and scenarios\<close>

text \<open>\<open>posts\<close> holds at most one entity per id; a shape without entities does trivially.\<close>

definition unique_ids :: "posts_value \<Rightarrow> bool" where
  "unique_ids p = (case p of PostsArray ps \<Rightarrow> distinct (map entity_id ps) | _ \<Rightarrow> True)"

text \<open>The result list an action carries, if any, names every id once.\<close>

definition results_unique :: "action \<Rightarrow> bool" where
  "results_unique a =
     (case results a of None \<Rightarrow> True | Some rs \<Rightarrow> distinct (map entity_id rs))"

text \<open>The store after a sequence of dispatches; a dispatch that throws changes no state.\<close>

fun dispatch_all :: "'q handler \<Rightarrow> action list \<Rightarrow> store \<Rightarrow> store" where
  "dispatch_all h [] st = st"
| "dispatch_all h (a # as) st = dispatch_all h as (snd (dispatch h a st))"

text \<open>An action of one of the four success types that carries its payload.\<close>

definition success_action :: "'q handler \<Rightarrow> action \<Rightarrow> bool" where
  "success_action h a =
     (type a = actions h archiveSuccess \<and> results a \<noteq> None \<or>
      (type a = actions h getSuccess \<or> type a = actions h createSuccess \<or>
       type a = actions h updateSuccess) \<and> data a \<noteq> None)"

text \<open>
  The scenario of the specification: a handler for the type \<open>posts\<close> with default options
  and the archive \<open>featured\<close> registered, on a fresh store.
\<close>

definition posts_handler :: "query handler" where
  "posts_handler = Handler toUpperCase_ascii ''posts'' None Map.empty"

definition featured_handler :: "query handler" where
  "featured_handler =
     posts_handler\<lparr> handler.archives := [''featured'' \<mapsto> QueryObject [(''orderby'', JStr ''date'')]] \<rparr>"

definition initial_store :: store where
  "initial_store = \<lparr> state = DEFAULT_STATE, dispatched = [] \<rparr>"



text \<open>
  The temp id made from the counter value \<open>n\<close> (line 261), the test for a temp id that
  \<open>isPostCreating\<close> applies, and the ids that successive calls of \<open>createSingle\<close> give
  their \<open>createStart\<close> actions, with the handler they leave. Each call has its own input
  and meets the store in whatever state earlier calls and settled requests left it.
\<close>

definition temp_id :: "nat \<Rightarrow> scalar" where
  "temp_id n = JStr (''_tmp_'' @ string_of_nat n)"

definition is_temp_id :: "scalar \<Rightarrow> bool" where
  "is_temp_id v = (case v of JStr s \<Rightarrow> String_indexOf s ''_tmp_'' = 0 | _ \<Rightarrow> False)"




section \<open>Properties\<close>

subsection \<open>Helper facts\<close>

lemma indexOf_ge_minus1: "- 1 \<le> indexOf xs x"
  by (induction xs) (auto simp: Let_def)

lemma indexOf_absent: "indexOf xs x = - 1 \<longleftrightarrow> x \<notin> set xs"
proof (induction xs)
  case Nil
  show ?case by simp
next
  case (Cons y ys)
  have "- 1 \<le> indexOf ys x" by (rule indexOf_ge_minus1)
  with Cons show ?case by (auto simp: Let_def)
qed

lemma indexOf_present: "0 \<le> indexOf xs x \<longleftrightarrow> x \<in> set xs"
  using indexOf_absent [of xs x] indexOf_ge_minus1 [of xs x] by linarith

lemma String_indexOf_ge_minus1: "- 1 \<le> String_indexOf s sub"
  by (induction s) (auto simp: Let_def)

lemma String_indexOf_zero: "String_indexOf s sub = 0 \<longleftrightarrow> take (length sub) s = sub"
proof (cases s)
  case Nil
  then show ?thesis by auto
next
  case (Cons c cs)
  have "- 1 \<le> String_indexOf cs sub" by (rule String_indexOf_ge_minus1)
  with Cons show ?thesis by (auto simp: Let_def)
qed

subsection \<open>Action types of one handler\<close>

lemma derived_actions_inj: "inj (derived_actions u)"
proof (rule injI)
  fix x y
  assume "derived_actions u x = derived_actions u y"
  then show "x = y" by (cases x; cases y; simp)
qed

lemma action_types_inj: "inj (action_types upper t)"
  by (simp add: action_types_def derived_actions_inj)

lemma action_types_posts:
  "action_types toUpperCase_ascii ''posts'' k = derived_actions ''POSTS'' k"
  by (simp add: action_types_def toUpperCase_ascii_def toUpperCase_char_def)

lemma posts_handler_actions: "actions posts_handler k = derived_actions ''POSTS'' k"
  by (simp add: posts_handler_def Handler_def action_types_with_def action_types_posts)

lemma featured_handler_registered:
  "registerArchive posts_handler (JStr ''featured'') (QueryObject [(''orderby'', JStr ''date'')])
   = Inr featured_handler"
  by (simp add: registerArchive_def featured_handler_def posts_handler_def Handler_def
        toPropertyKey_def toString_def chain_member_def Object_prototype_keys_def)

lemma featured_handler_actions: "actions featured_handler k = derived_actions ''POSTS'' k"
  by (simp add: featured_handler_def posts_handler_actions)

lemma featured_handler_inj: "inj (actions featured_handler)"
  using derived_actions_inj [of "''POSTS''"] by (simp add: featured_handler_actions [abs_def])

subsection \<open>The success branches of the reducer\<close>

text \<open>
  With pairwise different action types the \<open>switch\<close> reaches the branch of the action's
  type; on a \<open>posts\<close> that is an array (or absent) the branch returns the merged state.
\<close>

lemma reducer_archiveSuccess:
  assumes "inj (actions h)" "type a = actions h archiveSuccess" "results a = Some rs"
    "posts_or_empty (posts s) = Inr ps"
  shows "reducer h (Some s) a =
     Inr (s\<lparr> loadingArchive := JBool False,
            archives := Some (spread_archives (archives s) (toPropertyKey (id' a))
                                (map entity_id rs)),
            posts := PostsArray
                       (filter (\<lambda>post. entity_id post \<notin> set (map entity_id rs)) ps @ rs) \<rparr>)"
  using assms by (simp add: reducer_def inj_eq indexOf_absent Let_def)

lemma reducer_getSuccess:
  assumes "inj (actions h)" "type a = actions h getSuccess" "data a = Some d"
    "posts_or_empty (posts s) = Inr ps"
  shows "reducer h (Some s) a =
     Inr (s\<lparr> loadingPost := JBool False,
            posts := PostsArray (filter (\<lambda>post. entity_id post \<noteq> entity_id d) ps @ [d]) \<rparr>)"
  using assms by (simp add: reducer_def inj_eq Let_def)

lemma reducer_saveSuccess:
  assumes "inj (actions h)"
    "type a = actions h createSuccess \<or> type a = actions h updateSuccess" "data a = Some d"
    "posts_or_empty (posts s) = Inr ps"
  shows "reducer h (Some s) a =
     Inr (s\<lparr> saving := JBool False,
            posts := PostsArray (filter (\<lambda>post. entity_id post \<noteq> entity_id d) ps @ [d]) \<rparr>)"
  using assms by (auto simp add: reducer_def inj_eq Let_def)

subsection \<open>The helpers on the reducer's own states\<close>

text \<open>
  C10. On the reducer's default substate, whose \<open>posts\<close> is the object \<open>{}\<close>,
  \<open>getSingle\<close> does not return a null or not-found result for any id: the guard lets the
  truthy object pass and the call of \<open>find\<close> on it fails with a TypeError.
\<close>

theorem getSingle_DEFAULT_STATE_throws: "getSingle DEFAULT_STATE i = Inl TypeError"
  by (simp add: getSingle_def DEFAULT_STATE_def)

text \<open>
  C2. \<open>isPostLoading\<close> is meant to tell whether \<open>loadingPost\<close> equals the id, the field
  the reducer sets on \<open>getStart\<close>. The code compares with \<open>loadingSingle\<close> instead: after
  \<open>getStart\<close> for the id 5 on the default state, \<open>loadingPost\<close> is 5 and
  \<open>isPostLoading\<close> is false for 5; and it is true for \<open>undefined\<close> on the default state,
  whose \<open>loadingPost\<close> is \<open>false\<close>.
\<close>

theorem isPostLoading_reads_loadingSingle:
  "reducer featured_handler None
     \<lparr> type = ''LOAD_POSTS_REQUEST'', id' = JNum 5, data = None, results = None,
       error = None \<rparr> = Inr (DEFAULT_STATE\<lparr> loadingPost := JNum 5 \<rparr>)
   \<and> isPostLoading (DEFAULT_STATE\<lparr> loadingPost := JNum 5 \<rparr>) (JNum 5) = False
   \<and> loadingPost DEFAULT_STATE = JBool False
   \<and> isPostLoading DEFAULT_STATE JUndefined = True"
  by (simp add: reducer_def featured_handler_actions isPostLoading_def DEFAULT_STATE_def)

text \<open>
  C3. \<open>isPostCreating\<close> is meant to return false when \<open>saving\<close> is not a temp id. The
  code calls \<open>indexOf\<close> on \<open>saving\<close> whatever it is: on the default state and after
  \<open>createError\<close>, where \<open>saving\<close> is \<open>false\<close>, and on a state whose \<open>saving\<close> is the
  number 5, the call fails with a TypeError. On a temp id it answers true.
\<close>

theorem isPostCreating_throws_unless_string:
  "isPostCreating DEFAULT_STATE = Inl TypeError
   \<and> reducer featured_handler (Some (DEFAULT_STATE\<lparr> saving := JStr ''_tmp_0'' \<rparr>))
        \<lparr> type = ''CREATE_POSTS_ERROR'', id' = JStr ''_tmp_0'', data = None, results = None,
          error = Some (RequestError ''Unknown server error'') \<rparr> = Inr DEFAULT_STATE
   \<and> isPostCreating (DEFAULT_STATE\<lparr> saving := JNum 5 \<rparr>) = Inl TypeError
   \<and> isPostCreating (DEFAULT_STATE\<lparr> saving := JStr ''_tmp_0'' \<rparr>) = Inr True"
  by (simp add: isPostCreating_def reducer_def featured_handler_actions DEFAULT_STATE_def)

subsection \<open>The archive scenario on the default state\<close>

text \<open>
  C1. On a \<open>posts\<close> that is an array, \<open>archiveSuccess\<close> does what the claim says
  (\<open>reducer_archiveSuccess\<close>). On the reducer's default substate it does not: \<open>posts\<close> is
  the object \<open>{}\<close>, and the reducer throws a TypeError for the action carrying the two
  entities. In the scenario (archive \<open>featured\<close> registered, fetch dispatched on a fresh
  store, the server answering with the entities 1 and 2) the \<open>then\<close> callback throws, the
  \<open>catch\<close> callback dispatches \<open>archiveError\<close>, and the store ends in the default
  state: \<open>archives.featured\<close> is not set and \<open>posts\<close> holds no entity.
\<close>

theorem archiveSuccess_on_DEFAULT_STATE_throws:
  "reducer featured_handler None
     \<lparr> type = ''QUERY_POSTS'', id' = JStr ''featured'', data = None,
       results = Some [[(''id'', JNum 1)], [(''id'', JNum 2)]], error = None \<rparr> = Inl TypeError
   \<and> fetchArchive_chain featured_handler (JStr ''featured'')
        (Inr [[(''id'', JNum 1)], [(''id'', JNum 2)]])
        (snd (fetchArchive featured_handler (JStr ''featured'') initial_store))
      = (Rejected TypeError,
         \<lparr> state = DEFAULT_STATE,
           dispatched =
             [\<lparr> type = ''QUERY_POSTS_REQUEST'', id' = JStr ''featured'', data = None,
                results = None, error = None \<rparr>,
              \<lparr> type = ''QUERY_POSTS'', id' = JStr ''featured'', data = None,
                results = Some [[(''id'', JNum 1)], [(''id'', JNum 2)]], error = None \<rparr>,
              \<lparr> type = ''QUERY_POSTS_ERROR'', id' = JStr ''featured'', data = None,
                results = None, error = Some TypeError \<rparr>] \<rparr>)"
proof -
  let ?k = "JStr ''featured''"
  let ?rs = "[[(''id'', JNum 1)], [(''id'', JNum 2)]]"
  let ?start = "\<lparr> type = ''QUERY_POSTS_REQUEST'', id' = ?k, data = None, results = None,
                  error = None \<rparr>"
  let ?success = "\<lparr> type = ''QUERY_POSTS'', id' = ?k, data = None, results = Some ?rs,
                  error = None \<rparr>"
  let ?st1 = "\<lparr> state = DEFAULT_STATE\<lparr> loadingArchive := ?k \<rparr>, dispatched = [?start] \<rparr>"
  have registered: "handler.archives featured_handler (toPropertyKey ?k)
      = Some (QueryObject [(''orderby'', JStr ''date'')])"
    by (simp add: featured_handler_def toPropertyKey_def toString_def)
  have start: "dispatch featured_handler ?start initial_store = (None, ?st1)"
    by (simp add: dispatch_def reducer_def featured_handler_actions initial_store_def)
  have thunk: "fetchArchive featured_handler ?k initial_store = (Inr ReturnsUndefined, ?st1)"
    by (simp add: fetchArchive_def in_archives_def read_archives_def registered
          featured_handler_actions start evaluate_query_def)
  have throws: "reducer featured_handler None ?success = Inl TypeError"
    by (simp add: reducer_def featured_handler_actions DEFAULT_STATE_def)
  let ?failure = "\<lparr> type = ''QUERY_POSTS_ERROR'', id' = ?k, data = None, results = None,
                  error = Some TypeError \<rparr>"
  let ?st2 = "\<lparr> state = DEFAULT_STATE\<lparr> loadingArchive := ?k \<rparr>,
               dispatched = [?start, ?success] \<rparr>"
  let ?st3 = "\<lparr> state = DEFAULT_STATE, dispatched = [?start, ?success, ?failure] \<rparr>"
  have d2: "dispatch featured_handler ?success ?st1 = (Some TypeError, ?st2)"
    by (simp add: dispatch_def reducer_def featured_handler_actions DEFAULT_STATE_def)
  have d3: "dispatch featured_handler ?failure ?st2 = (None, ?st3)"
    by (simp add: dispatch_def reducer_def featured_handler_actions DEFAULT_STATE_def)
  have rethrows: "rethrow featured_handler"
    by (simp add: featured_handler_def posts_handler_def Handler_def)
  have chain: "fetchArchive_chain featured_handler ?k (Inr ?rs) ?st1 = (Rejected TypeError, ?st3)"
    by (simp add: fetchArchive_chain_def on_rejected_def featured_handler_actions d2 d3 rethrows)
  show ?thesis unfolding thunk using throws chain by simp
qed


subsection \<open>Replaying a success action\<close>

text \<open>
  C7. For a handler with pairwise different action types, a substate whose \<open>posts\<close> is an
  array of entities and a success action with its payload, the reducer returns a state,
  and applied to that state with the same action it returns that state again: the second
  application removes exactly what the first appended and appends it again.
\<close>

theorem reducer_success_replay:
  assumes "inj (actions h)" and "posts s = PostsArray ps" and "success_action h a"
  shows "\<exists>s1. reducer h (Some s) a = Inr s1 \<and> reducer h (Some s1) a = Inr s1"
proof -
  have p: "posts_or_empty (posts s) = Inr ps" using assms(2) by simp
  from assms(3) consider
      (archive) rs where "type a = actions h archiveSuccess" "results a = Some rs"
    | (get) d where "type a = actions h getSuccess" "data a = Some d"
    | (save) d where "type a = actions h createSuccess \<or> type a = actions h updateSuccess"
        "data a = Some d"
    by (auto simp: success_action_def)
  then show ?thesis
  proof cases
    case archive
    let ?ids = "map entity_id rs"
    let ?ps1 = "filter (\<lambda>post. entity_id post \<notin> set ?ids) ps @ rs"
    let ?s1 = "s\<lparr> loadingArchive := JBool False,
            archives := Some (spread_archives (archives s) (toPropertyKey (id' a)) ?ids),
            posts := PostsArray ?ps1 \<rparr>"
    have 1: "reducer h (Some s) a = Inr ?s1"
      by (rule reducer_archiveSuccess [OF assms(1) archive p])
    have "filter (\<lambda>post. entity_id post \<notin> set ?ids) ?ps1 @ rs = ?ps1"
      by (simp add: filter_empty_conv)
    moreover have "spread_archives (archives ?s1) (toPropertyKey (id' a)) ?ids
        = spread_archives (archives s) (toPropertyKey (id' a)) ?ids"
      by (simp add: spread_archives_def)
    moreover have "reducer h (Some ?s1) a =
       Inr (?s1\<lparr> loadingArchive := JBool False,
            archives := Some (spread_archives (archives ?s1) (toPropertyKey (id' a)) ?ids),
            posts := PostsArray (filter (\<lambda>post. entity_id post \<notin> set ?ids) ?ps1 @ rs) \<rparr>)"
      by (rule reducer_archiveSuccess [OF assms(1) archive]) simp
    ultimately have "reducer h (Some ?s1) a = Inr ?s1" by simp
    with 1 show ?thesis by blast
  next
    case get
    let ?ps1 = "filter (\<lambda>post. entity_id post \<noteq> entity_id d) ps @ [d]"
    let ?s1 = "s\<lparr> loadingPost := JBool False, posts := PostsArray ?ps1 \<rparr>"
    have 1: "reducer h (Some s) a = Inr ?s1"
      by (rule reducer_getSuccess [OF assms(1) get p])
    have "reducer h (Some ?s1) a =
       Inr (?s1\<lparr> loadingPost := JBool False,
            posts := PostsArray (filter (\<lambda>post. entity_id post \<noteq> entity_id d) ?ps1 @ [d]) \<rparr>)"
      by (rule reducer_getSuccess [OF assms(1) get]) simp
    then have "reducer h (Some ?s1) a = Inr ?s1" by simp
    with 1 show ?thesis by blast
  next
    case save
    let ?ps1 = "filter (\<lambda>post. entity_id post \<noteq> entity_id d) ps @ [d]"
    let ?s1 = "s\<lparr> saving := JBool False, posts := PostsArray ?ps1 \<rparr>"
    have 1: "reducer h (Some s) a = Inr ?s1"
      by (rule reducer_saveSuccess [OF assms(1) save p])
    have "reducer h (Some ?s1) a =
       Inr (?s1\<lparr> saving := JBool False,
            posts := PostsArray (filter (\<lambda>post. entity_id post \<noteq> entity_id d) ?ps1 @ [d]) \<rparr>)"
      by (rule reducer_saveSuccess [OF assms(1) save]) simp
    then have "reducer h (Some ?s1) a = Inr ?s1" by simp
    with 1 show ?thesis by blast
  qed
qed

theorem reducer_success_replay_witness:
  "inj (actions featured_handler)
   \<and> posts (DEFAULT_STATE\<lparr> posts := PostsArray [[(''id'', JNum 5), (''title'', JStr ''old'')]] \<rparr>)
       = PostsArray [[(''id'', JNum 5), (''title'', JStr ''old'')]]
   \<and> success_action featured_handler
        \<lparr> type = ''UPDATE_POSTS'', id' = JNum 5,
          data = Some [(''id'', JNum 5), (''title'', JStr ''x'')], results = None, error = None \<rparr>
   \<and> (\<exists>s1. reducer featured_handler
              (Some (DEFAULT_STATE\<lparr> posts := PostsArray [[(''id'', JNum 5), (''title'', JStr ''old'')]] \<rparr>))
              \<lparr> type = ''UPDATE_POSTS'', id' = JNum 5,
                data = Some [(''id'', JNum 5), (''title'', JStr ''x'')], results = None,
                error = None \<rparr> = Inr s1
           \<and> reducer featured_handler (Some s1)
              \<lparr> type = ''UPDATE_POSTS'', id' = JNum 5,
                data = Some [(''id'', JNum 5), (''title'', JStr ''x'')], results = None,
                error = None \<rparr> = Inr s1)"
proof -
  let ?s = "DEFAULT_STATE\<lparr> posts := PostsArray [[(''id'', JNum 5), (''title'', JStr ''old'')]] \<rparr>"
  let ?a = "\<lparr> type = ''UPDATE_POSTS'', id' = JNum 5,
              data = Some [(''id'', JNum 5), (''title'', JStr ''x'')], results = None,
              error = None \<rparr>"
  have h1: "inj (actions featured_handler)" by (rule featured_handler_inj)
  have h2: "posts ?s = PostsArray [[(''id'', JNum 5), (''title'', JStr ''old'')]]" by simp
  have h3: "success_action featured_handler ?a"
    by (simp add: success_action_def featured_handler_actions)
  show ?thesis using h1 h2 h3 reducer_success_replay [OF h1 h2 h3] by blast
qed

subsection \<open>What the thunks return and throw\<close>

lemma posts_or_empty_error: "posts_or_empty p = Inl e \<Longrightarrow> e = TypeError"
  by (cases p) auto

lemma reducer_error: "reducer h s a = Inl e \<Longrightarrow> e = TypeError"
  by (auto simp: reducer_def Let_def dest: posts_or_empty_error
        split: if_splits option.splits sum.splits)

lemma dispatch_error: "fst (dispatch h a st) = Some e \<Longrightarrow> e = TypeError"
  by (auto simp: dispatch_def dest: reducer_error split: sum.splits)

lemma dispatch_archiveStart:
  "dispatch h \<lparr> type = actions h archiveStart, id' = i, data = None, results = None,
                error = None \<rparr> st
   = (None, \<lparr> state = (state st)\<lparr> loadingArchive := i \<rparr>,
              dispatched = dispatched st @
                [\<lparr> type = actions h archiveStart, id' = i, data = None, results = None,
                   error = None \<rparr>] \<rparr>)"
  by (simp add: dispatch_def reducer_def)

text \<open>
  C4. The claim is that the \<open>fetchArchive\<close> thunk returns a promise that resolves with the
  archive key once \<open>archiveSuccess\<close> has been dispatched. The code builds that chain
  (\<open>fetchArchive_chain_resolves\<close> below) but does not return it: for every handler, every
  registered key whose query evaluates, and every store, the thunk returns \<open>undefined\<close>.
  Its sibling \<open>fetchSingle\<close> returns its chain (\<open>fetchSingle_returns_promise\<close>).
\<close>

theorem fetchArchive_returns_undefined:
  assumes "handler.archives h (toPropertyKey i) = Some q"
    and "evaluate_query q ((state st)\<lparr> loadingArchive := i \<rparr>) = None"
  shows "fst (fetchArchive h i st) = Inr ReturnsUndefined"
  using assms
  by (simp add: fetchArchive_def dispatch_archiveStart in_archives_def read_archives_def)

theorem fetchArchive_returns_undefined_witness:
  "handler.archives featured_handler (toPropertyKey (JStr ''featured''))
     = Some (QueryObject [(''orderby'', JStr ''date'')])
   \<and> evaluate_query (QueryObject [(''orderby'', JStr ''date'')])
        ((state initial_store)\<lparr> loadingArchive := JStr ''featured'' \<rparr>) = None
   \<and> fst (fetchArchive featured_handler (JStr ''featured'') initial_store) = Inr ReturnsUndefined"
proof -
  have h1: "handler.archives featured_handler (toPropertyKey (JStr ''featured''))
      = Some (QueryObject [(''orderby'', JStr ''date'')])"
    by (simp add: featured_handler_def toPropertyKey_def toString_def)
  have h2: "evaluate_query (QueryObject [(''orderby'', JStr ''date'')])
      ((state initial_store)\<lparr> loadingArchive := JStr ''featured'' \<rparr>) = None"
    by (simp add: evaluate_query_def)
  show ?thesis using h1 h2 fetchArchive_returns_undefined [OF h1 h2] by simp
qed

lemma fetchSingle_returns_promise:
  "inj (actions h) \<Longrightarrow>
   fst (fetchSingle h i st) = Inr (ReturnsPromise (fetchSingle_chain h i))"
  by (simp add: fetchSingle_def dispatch_def reducer_def inj_eq)

lemma fetchArchive_chain_resolves:
  assumes "inj (actions h)" "posts_or_empty (posts (state st)) = Inr ps"
  shows "fetchArchive_chain h i (Inr rs) st =
     (Resolved i,
      \<lparr> state = (state st)\<lparr> loadingArchive := JBool False,
            archives := Some (spread_archives (archives (state st)) (toPropertyKey i)
                                (map entity_id rs)),
            posts := PostsArray
                       (filter (\<lambda>post. entity_id post \<notin> set (map entity_id rs)) ps @ rs) \<rparr>,
        dispatched = dispatched st @
          [\<lparr> type = actions h archiveSuccess, id' = i, data = None, results = Some rs,
             error = None \<rparr>] \<rparr>)"
  using assms
  by (simp add: fetchArchive_chain_def dispatch_def reducer_archiveSuccess)

lemma in_archives_rethrow [simp]: "in_archives (h\<lparr> rethrow := r \<rparr>) key = in_archives h key"
  by (simp add: in_archives_def split: option.splits)

text \<open>
  C5, as amended. Both configuration errors are thrown by the thunk itself before its first
  \<open>dispatch\<close>, whatever the rethrow flag \<open>r\<close> is: the store, and with it the state and the
  list of dispatched actions, is returned as it was. \<open>fetchArchive\<close> throws the
  invalid-archive error whenever \<open>in\<close> does not find the key, as a property name, on
  \<open>this.archives\<close>: the key is neither a registered archive nor a name on the prototype
  chain of that object. As long as no registration under \<open>__proto__\<close> has changed the
  prototype, the names on the chain are those every object inherits from
  \<open>Object.prototype\<close>. \<open>updateSingle\<close> throws the missing-id error exactly when the
  \<open>id\<close> of its input is falsy (absent, \<open>undefined\<close>, \<open>null\<close>, \<open>false\<close>, \<open>0\<close> or
  the empty string); otherwise it dispatches. A numeric key is taken in the range of
  \<open>exact_number\<close>, where its property name is its decimal digits.
\<close>

theorem configuration_errors:
  "(exact_number i \<and> \<not> in_archives h (toPropertyKey i) \<longrightarrow>
      fetchArchive (h\<lparr> rethrow := r \<rparr>) i st = (Inl (InvalidArchiveID (toString i)), st))
   \<and> (archives_prototype h = ObjectPrototype \<longrightarrow>
      in_archives h key = (handler.archives h key \<noteq> None \<or> key \<in> set Object_prototype_keys))
   \<and> (\<not> truthy (entity_id d) \<longrightarrow>
      updateSingle (h\<lparr> rethrow := r \<rparr>) d st = (Inl MissingId, st))
   \<and> (truthy (entity_id d) \<longrightarrow>
      fst (updateSingle (h\<lparr> rethrow := r \<rparr>) d st) \<noteq> Inl MissingId
      \<and> dispatched (snd (updateSingle (h\<lparr> rethrow := r \<rparr>) d st)) \<noteq> dispatched st)"
proof (intro conjI impI)
  assume "exact_number i \<and> \<not> in_archives h (toPropertyKey i)"
  then show "fetchArchive (h\<lparr> rethrow := r \<rparr>) i st = (Inl (InvalidArchiveID (toString i)), st)"
    by (simp add: fetchArchive_def)
next
  assume "archives_prototype h = ObjectPrototype"
  then show "in_archives h key = (handler.archives h key \<noteq> None \<or> key \<in> set Object_prototype_keys)"
    by (auto simp: in_archives_def chain_member_def Object_prototype_keys_def
          split: option.splits)
next
  assume "\<not> truthy (entity_id d)"
  then show "updateSingle (h\<lparr> rethrow := r \<rparr>) d st = (Inl MissingId, st)"
    by (simp add: updateSingle_def)
next
  assume t: "truthy (entity_id d)"
  let ?a = "\<lparr> type = actions h updateStart, id' = entity_id d, data = Some d,
                      results = None, error = None \<rparr>"
  show "fst (updateSingle (h\<lparr> rethrow := r \<rparr>) d st) \<noteq> Inl MissingId"
  proof (cases "dispatch (h\<lparr> rethrow := r \<rparr>) ?a st")
    case (Pair x st')
    then show ?thesis using t dispatch_error [of "h\<lparr> rethrow := r \<rparr>" ?a st]
      by (cases x) (auto simp: updateSingle_def Let_def)
  qed
  show "dispatched (snd (updateSingle (h\<lparr> rethrow := r \<rparr>) d st)) \<noteq> dispatched st"
    using t by (auto simp: updateSingle_def Let_def dispatch_def split: sum.splits)
qed

theorem configuration_errors_witness:
  "exact_number (JStr ''latest'')
   \<and> \<not> in_archives featured_handler (toPropertyKey (JStr ''latest''))
   \<and> fetchArchive (featured_handler\<lparr> rethrow := False \<rparr>) (JStr ''latest'') initial_store
       = (Inl (InvalidArchiveID ''latest''), initial_store)
   \<and> archives_prototype featured_handler = ObjectPrototype
   \<and> in_archives featured_handler ''featured''
   \<and> \<not> truthy (entity_id [(''title'', JStr ''x'')])
   \<and> updateSingle (featured_handler\<lparr> rethrow := False \<rparr>) [(''title'', JStr ''x'')] initial_store
       = (Inl MissingId, initial_store)
   \<and> truthy (entity_id [(''id'', JNum 5), (''title'', JStr ''x'')])
   \<and> fst (updateSingle (featured_handler\<lparr> rethrow := False \<rparr>)
             [(''id'', JNum 5), (''title'', JStr ''x'')] initial_store) \<noteq> Inl MissingId"
proof -
  have p: "archives_prototype featured_handler = ObjectPrototype"
    by (simp add: featured_handler_def posts_handler_def Handler_def)
  have own: "handler.archives featured_handler ''featured'' \<noteq> None"
    "handler.archives featured_handler ''latest'' = None"
    by (simp_all add: featured_handler_def)
  have k: "toPropertyKey (JStr ''latest'') = ''latest''" "toString (JStr ''latest'') = ''latest''"
    by (simp_all add: toPropertyKey_def toString_def)
  have h0: "exact_number (JStr ''latest'')" by (simp add: exact_number_def)
  note c1 = configuration_errors [of "JStr ''latest''" featured_handler False initial_store
        "''latest''" "[(''title'', JStr ''x'')]"]
  note c2 = configuration_errors [of "JStr ''latest''" featured_handler False initial_store
        "''featured''" "[(''id'', JNum 5), (''title'', JStr ''x'')]"]
  have h1: "\<not> in_archives featured_handler (toPropertyKey (JStr ''latest''))"
    using c1 p own by (simp add: k Object_prototype_keys_def)
  have h1': "in_archives featured_handler ''featured''"
    using c2 p own by simp
  have h2: "\<not> truthy (entity_id [(''title'', JStr ''x'')])"
    by (simp add: entity_id_def)
  have h3: "truthy (entity_id [(''id'', JNum 5), (''title'', JStr ''x'')])"
    by (simp add: entity_id_def)
  show ?thesis
    using h0 h1 h1' h2 h3 p k c1 c2 by simp
qed

text \<open>
  The claim as stated fails. The object \<open>{ id: 0 }\<close> has an \<open>id\<close> field, and
  \<open>updateSingle\<close> throws the missing-id error for it. The key \<open>constructor\<close> is not a
  registered archive, and \<open>fetchArchive\<close> does not throw for it: \<open>in\<close> finds the name
  on \<open>Object.prototype\<close>. Nor does it throw for \<open>orderby\<close> once the query
  \<open>{ orderby: 'date' }\<close> has been registered under \<open>__proto__\<close>: that registration
  stores no archive and makes the query the prototype of \<open>this.archives\<close>.
\<close>

theorem configuration_errors_counterexample:
  "map_of [(''id'', JNum 0)] ''id'' = Some (JNum 0)
   \<and> updateSingle featured_handler [(''id'', JNum 0)] initial_store = (Inl MissingId, initial_store)
   \<and> handler.archives featured_handler ''constructor'' = None
   \<and> fst (fetchArchive featured_handler (JStr ''constructor'') initial_store)
       = Inr ReturnsUndefined
   \<and> registerArchive featured_handler (JStr ''__proto__'')
         (QueryObject [(''orderby'', JStr ''date'')])
       = Inr (featured_handler\<lparr> archives_prototype :=
                ValuePrototype (QueryObject [(''orderby'', JStr ''date'')]) \<rparr>)
   \<and> handler.archives (featured_handler\<lparr> archives_prototype :=
                ValuePrototype (QueryObject [(''orderby'', JStr ''date'')]) \<rparr>) ''orderby'' = None
   \<and> fst (fetchArchive (featured_handler\<lparr> archives_prototype :=
                ValuePrototype (QueryObject [(''orderby'', JStr ''date'')]) \<rparr>)
            (JStr ''orderby'') initial_store) = Inr ReturnsUndefined"
  by (simp add: updateSingle_def entity_id_def fetchArchive_def in_archives_def
        read_archives_def chain_member_def registerArchive_def proto_setter_reached_def
        featured_handler_def posts_handler_def Handler_def toPropertyKey_def toString_def
        Object_prototype_keys_def dispatch_def reducer_def Object_prototype_member_def
        evaluate_query_def)

subsection \<open>At most one entity per id\<close>

lemma reducer_unique_ids:
  assumes "unique_ids (posts s)" "results_unique a" "reducer h (Some s) a = Inr s'"
  shows "unique_ids (posts s')"
proof -
  have arr: "distinct (map entity_id ps)" if "posts_or_empty (posts s) = Inr ps" for ps
    using that assms(1) by (cases "posts s") (auto simp: unique_ids_def)
  show ?thesis
    using assms(2,3) arr assms(1)
    by (auto simp: reducer_def Let_def results_unique_def indexOf_absent unique_ids_def
          distinct_map_filter
        split: if_splits option.splits sum.splits)
qed

lemma dispatch_unique_ids:
  assumes "unique_ids (posts (state st))" "results_unique a"
  shows "unique_ids (posts (state (snd (dispatch h a st))))"
  using assms reducer_unique_ids [of "state st" a h]
  by (auto simp: dispatch_def split: sum.splits)

lemma dispatch_all_unique_ids:
  "unique_ids (posts (state st)) \<Longrightarrow> list_all results_unique as \<Longrightarrow>
   unique_ids (posts (state (dispatch_all h as st)))"
  by (induction as arbitrary: st) (auto simp: dispatch_unique_ids)

lemma getArchive_unique:
  assumes "unique_ids (posts s)" "getArchive s i = Inr (Value ps)"
  shows "distinct (map entity_id ps)"
  using assms
  by (cases "posts s")
     (auto simp: getArchive_def unique_ids_def distinct_map_filter
        split: option.splits if_splits sum.splits)

text \<open>
  C6, as amended. Let \<open>posts\<close> hold at most one entity per id, and let every dispatched
  action that carries a result list carry one without a repeated id. Then every transition
  of the reducer, and every sequence of dispatches, leaves a \<open>posts\<close> with at most one
  entity per id, and every list \<open>getArchive\<close> returns afterwards has pairwise different
  ids.
\<close>

theorem posts_unique_ids_preserved:
  assumes "unique_ids (posts (state st))" and "list_all results_unique as"
  shows "(\<forall>a s'. results_unique a \<and> reducer h (Some (state st)) a = Inr s'
            \<longrightarrow> unique_ids (posts s'))
       \<and> unique_ids (posts (state (dispatch_all h as st)))
       \<and> (\<forall>i ps. getArchive (state (dispatch_all h as st)) i = Inr (Value ps)
            \<longrightarrow> distinct (map entity_id ps))"
proof (intro conjI allI impI)
  fix a s'
  assume "results_unique a \<and> reducer h (Some (state st)) a = Inr s'"
  with assms(1) show "unique_ids (posts s')" by (blast intro: reducer_unique_ids)
next
  show u: "unique_ids (posts (state (dispatch_all h as st)))"
    using assms by (rule dispatch_all_unique_ids)
  fix i ps
  assume "getArchive (state (dispatch_all h as st)) i = Inr (Value ps)"
  with u show "distinct (map entity_id ps)" by (rule getArchive_unique)
qed

text \<open>
  Without the condition on the result list the claim fails: the reducer removes the old
  entities whose id is in the results, but appends the results as they are. On an empty
  \<open>posts\<close>, the result list \<open>[{id:1},{id:1}]\<close> yields a \<open>posts\<close> with the id 1 twice,
  and \<open>getArchive\<close> returns both entries.
\<close>

theorem archiveSuccess_duplicate_results:
  "unique_ids (posts (DEFAULT_STATE\<lparr> posts := PostsArray [] \<rparr>))
   \<and> reducer featured_handler (Some (DEFAULT_STATE\<lparr> posts := PostsArray [] \<rparr>))
        \<lparr> type = ''QUERY_POSTS'', id' = JStr ''featured'', data = None,
          results = Some [[(''id'', JNum 1)], [(''id'', JNum 1)]], error = None \<rparr>
      = Inr (DEFAULT_STATE\<lparr> archives := Some [''featured'' \<mapsto> [JNum 1, JNum 1]],
                            posts := PostsArray [[(''id'', JNum 1)], [(''id'', JNum 1)]] \<rparr>)
   \<and> \<not> unique_ids (PostsArray [[(''id'', JNum 1)], [(''id'', JNum 1)]])
   \<and> getArchive (DEFAULT_STATE\<lparr> archives := Some [''featured'' \<mapsto> [JNum 1, JNum 1]],
                            posts := PostsArray [[(''id'', JNum 1)], [(''id'', JNum 1)]] \<rparr>)
        (JStr ''featured'') = Inr (Value [[(''id'', JNum 1)], [(''id'', JNum 1)]])"
  by (simp add: unique_ids_def reducer_def featured_handler_actions DEFAULT_STATE_def
        entity_id_def spread_archives_def toPropertyKey_def toString_def getArchive_def)

theorem posts_unique_ids_preserved_witness:
  "unique_ids (posts (state (initial_store\<lparr> state := DEFAULT_STATE\<lparr> posts := PostsArray [[(''id'', JNum 1)]] \<rparr> \<rparr>)))
   \<and> list_all results_unique
        [\<lparr> type = ''QUERY_POSTS'', id' = JStr ''featured'', data = None,
           results = Some [[(''id'', JNum 1), (''title'', JStr ''new'')], [(''id'', JNum 2)]],
           error = None \<rparr>]
   \<and> posts (state (dispatch_all featured_handler
        [\<lparr> type = ''QUERY_POSTS'', id' = JStr ''featured'', data = None,
           results = Some [[(''id'', JNum 1), (''title'', JStr ''new'')], [(''id'', JNum 2)]],
           error = None \<rparr>]
        (initial_store\<lparr> state := DEFAULT_STATE\<lparr> posts := PostsArray [[(''id'', JNum 1)]] \<rparr> \<rparr>)))
      = PostsArray [[(''id'', JNum 1), (''title'', JStr ''new'')], [(''id'', JNum 2)]]
   \<and> unique_ids (posts (state (dispatch_all featured_handler
        [\<lparr> type = ''QUERY_POSTS'', id' = JStr ''featured'', data = None,
           results = Some [[(''id'', JNum 1), (''title'', JStr ''new'')], [(''id'', JNum 2)]],
           error = None \<rparr>]
        (initial_store\<lparr> state := DEFAULT_STATE\<lparr> posts := PostsArray [[(''id'', JNum 1)]] \<rparr> \<rparr>))))"
proof -
  let ?st = "initial_store\<lparr> state := DEFAULT_STATE\<lparr> posts := PostsArray [[(''id'', JNum 1)]] \<rparr> \<rparr>"
  let ?as = "[\<lparr> type = ''QUERY_POSTS'', id' = JStr ''featured'', data = None,
           results = Some [[(''id'', JNum 1), (''title'', JStr ''new'')], [(''id'', JNum 2)]],
           error = None \<rparr>]"
  have h1: "unique_ids (posts (state ?st))"
    by (simp add: unique_ids_def initial_store_def entity_id_def)
  have h2: "list_all results_unique ?as"
    by (simp add: results_unique_def entity_id_def)
  have run: "posts (state (dispatch_all featured_handler ?as ?st))
      = PostsArray [[(''id'', JNum 1), (''title'', JStr ''new'')], [(''id'', JNum 2)]]"
    by (simp add: dispatch_def reducer_def featured_handler_actions initial_store_def
          DEFAULT_STATE_def entity_id_def)
  show ?thesis
    using h1 h2 run posts_unique_ids_preserved [OF h1 h2, of featured_handler] by blast
qed

subsection \<open>Action types of two handlers\<close>

lemma suffix_REQUEST_ERROR: "u @ ''_REQUEST'' \<noteq> v @ ''_ERROR''"
proof
  assume "u @ ''_REQUEST'' = v @ ''_ERROR''"
  then have "last (u @ ''_REQUEST'') = last (v @ ''_ERROR'')" by simp
  then show False by simp
qed

lemma derived_actions_disjoint:
  assumes "u \<noteq> v"
    and "u \<noteq> v @ ''_REQUEST''" and "u \<noteq> v @ ''_ERROR''"
    and "v \<noteq> u @ ''_REQUEST''" and "v \<noteq> u @ ''_ERROR''"
  shows "derived_actions u k1 \<noteq> derived_actions v k2"
  using assms suffix_REQUEST_ERROR [of u v] suffix_REQUEST_ERROR [of v u]
  by (cases k1; cases k2; auto)

text \<open>
  C9, as amended. The twelve derived action types are a function of the uppercased
  resource-type name alone. Two names whose uppercased forms differ, neither being the
  other followed by \<open>_REQUEST\<close> or \<open>_ERROR\<close>, share no derived action type. This holds
  of \<open>String.prototype.toUpperCase\<close> as of every function \<open>upper\<close>.
\<close>

theorem action_types_disjoint:
  "(upper t1 = upper t2 \<longrightarrow> action_types upper t1 = action_types upper t2)
   \<and> (upper t1 \<noteq> upper t2
      \<and> upper t1 \<noteq> upper t2 @ ''_REQUEST''
      \<and> upper t1 \<noteq> upper t2 @ ''_ERROR''
      \<and> upper t2 \<noteq> upper t1 @ ''_REQUEST''
      \<and> upper t2 \<noteq> upper t1 @ ''_ERROR''
      \<longrightarrow> (\<forall>k1 k2. action_types upper t1 k1 \<noteq> action_types upper t2 k2))"
proof (intro conjI impI allI)
  assume "upper t1 = upper t2"
  then show "action_types upper t1 = action_types upper t2" by (simp add: action_types_def)
next
  fix k1 k2
  assume "upper t1 \<noteq> upper t2
      \<and> upper t1 \<noteq> upper t2 @ ''_REQUEST''
      \<and> upper t1 \<noteq> upper t2 @ ''_ERROR''
      \<and> upper t2 \<noteq> upper t1 @ ''_REQUEST''
      \<and> upper t2 \<noteq> upper t1 @ ''_ERROR''"
  then show "action_types upper t1 k1 \<noteq> action_types upper t2 k2"
    unfolding action_types_def by (intro derived_actions_disjoint) simp_all
qed

theorem action_types_disjoint_witness:
  "toUpperCase_ascii ''posts'' \<noteq> toUpperCase_ascii ''users''
   \<and> toUpperCase_ascii ''posts'' \<noteq> toUpperCase_ascii ''users'' @ ''_REQUEST''
   \<and> toUpperCase_ascii ''posts'' \<noteq> toUpperCase_ascii ''users'' @ ''_ERROR''
   \<and> toUpperCase_ascii ''users'' \<noteq> toUpperCase_ascii ''posts'' @ ''_REQUEST''
   \<and> toUpperCase_ascii ''users'' \<noteq> toUpperCase_ascii ''posts'' @ ''_ERROR''
   \<and> action_types toUpperCase_ascii ''posts'' archiveSuccess
       \<noteq> action_types toUpperCase_ascii ''users'' archiveSuccess
   \<and> action_types toUpperCase_ascii ''posts'' createError
       \<noteq> action_types toUpperCase_ascii ''users'' getStart
   \<and> toUpperCase_ascii ''Posts'' = toUpperCase_ascii ''posts''
   \<and> action_types toUpperCase_ascii ''Posts'' = action_types toUpperCase_ascii ''posts''"
proof -
  have h: "toUpperCase_ascii ''posts'' \<noteq> toUpperCase_ascii ''users''
      \<and> toUpperCase_ascii ''posts'' \<noteq> toUpperCase_ascii ''users'' @ ''_REQUEST''
      \<and> toUpperCase_ascii ''posts'' \<noteq> toUpperCase_ascii ''users'' @ ''_ERROR''
      \<and> toUpperCase_ascii ''users'' \<noteq> toUpperCase_ascii ''posts'' @ ''_REQUEST''
      \<and> toUpperCase_ascii ''users'' \<noteq> toUpperCase_ascii ''posts'' @ ''_ERROR''"
    by (simp add: toUpperCase_ascii_def toUpperCase_char_def)
  have e: "toUpperCase_ascii ''Posts'' = toUpperCase_ascii ''posts''"
    by (simp add: toUpperCase_ascii_def toUpperCase_char_def)
  show ?thesis
    using h e action_types_disjoint [of toUpperCase_ascii "''posts''" "''users''"]
      action_types_disjoint [of toUpperCase_ascii "''Posts''" "''posts''"]
    by blast
qed

text \<open>
  As stated, for any two distinct names, the claim fails: \<open>post\<close> and \<open>POST\<close> are
  distinct names with the same action types, and the \<open>archiveStart\<close> type of \<open>a\<close> is the
  \<open>archiveSuccess\<close> type of \<open>a_request\<close>.
\<close>

theorem action_types_collide:
  "''post'' \<noteq> ''POST''
   \<and> action_types toUpperCase_ascii ''post'' archiveStart
       = action_types toUpperCase_ascii ''POST'' archiveStart
   \<and> ''a'' \<noteq> ''a_request''
   \<and> action_types toUpperCase_ascii ''a'' archiveStart
       = action_types toUpperCase_ascii ''a_request'' archiveSuccess"
  by (simp add: action_types_def toUpperCase_ascii_def toUpperCase_char_def)

subsection \<open>Temp ids\<close>

declare string_of_nat.simps [simp del]







lemma is_temp_id_temp_id: "is_temp_id (temp_id n)"
  by (simp add: is_temp_id_def temp_id_def String_indexOf_zero)














end
